theory Spec2Isabelle
  imports Main
begin

section \<open>Session templates and session instances\<close>

text \<open>
  The option bundles of the data-store client, as far as the source writes them down.
  A field that an object literal leaves out is \<open>None\<close>.
\<close>

record WriteConcern =
  wc_w :: string
  wc_journal :: bool
  wc_wtimeoutMS :: nat

record TransactionOptions =
  readConcern :: "string option"
  willRetryWrite :: "bool option"
  retryWrites :: "bool option"
  readPreference :: "string option"
  writeConcern :: "WriteConcern option"
  maxTimeMS :: "nat option"

record ClientSessionOptions =
  defaultTransactionOptions :: "TransactionOptions option"

definition defaultSessionOptions :: ClientSessionOptions where
  "defaultSessionOptions =
     \<lparr>defaultTransactionOptions = Some
        \<lparr>readConcern = Some ''majority'',
         willRetryWrite = Some True,
         retryWrites = Some True,
         readPreference = Some ''primary'',
         writeConcern = Some \<lparr>wc_w = ''majority'', wc_journal = True, wc_wtimeoutMS = 45000\<rparr>,
         maxTimeMS = Some 60000\<rparr>\<rparr>"

definition readOnlySessionOptions :: ClientSessionOptions where
  "readOnlySessionOptions =
     \<lparr>defaultTransactionOptions = Some
        \<lparr>readConcern = Some ''majority'',
         willRetryWrite = None,
         retryWrites = None,
         readPreference = Some ''nearest'',
         writeConcern = None,
         maxTimeMS = Some 60000\<rparr>\<rparr>"

text \<open>
  A session handle is the identity of a \<open>ClientSession\<close> object. The connection hands
  out a fresh one at every \<open>startSession\<close>.
\<close>

type_synonym handle = nat

record TransactionsTemplate =
  sessionOptions :: "ClientSessionOptions option"
  name :: string

record TransactionInstance = TransactionsTemplate +
  session :: "handle option"

text \<open>
  \<open>new TransactionsTemplate(name, sessionOptions)\<close>: a missing second argument takes
  the default preset (default parameter and \<open>??\<close>).
\<close>

definition new_TransactionsTemplate :: "string \<Rightarrow> ClientSessionOptions option \<Rightarrow> TransactionsTemplate" where
  "new_TransactionsTemplate n opts =
     \<lparr>sessionOptions = Some (case opts of None \<Rightarrow> defaultSessionOptions | Some so \<Rightarrow> so),
      name = n\<rparr>"

text \<open>\<open>new TransactionInstance(name, sessionOptions)\<close>: the handle slot starts unset.\<close>

definition new_TransactionInstance :: "string \<Rightarrow> ClientSessionOptions \<Rightarrow> TransactionInstance" where
  "new_TransactionInstance n so =
     TransactionsTemplate.extend (new_TransactionsTemplate n (Some so))
       (TransactionInstance.fields None)"

section \<open>Thrown values and the exception translator\<close>

text \<open>
  What the two \<open>instanceof\<close> tests of the translator can tell about an error object.
\<close>

datatype error_class = MongooseError | TypeGuardError | OtherError

text \<open>
  A value that can be thrown: a string, an error object (its class, whether
  \<open>isAxiosError\<close> accepts it, and the properties the translator reads), or one of the
  two framework exceptions the translator builds (message, \<open>cause\<close> option,
  \<open>description\<close> option).
\<close>

datatype js_value =
    StringValue string
  | ErrorObject error_class bool string string "js_value option" "string option"
  | InternalServerErrorException string "js_value option" "string option"
  | BadRequestException string "js_value option" "string option"

fun instanceof :: "js_value \<Rightarrow> error_class \<Rightarrow> bool" where
  "instanceof (ErrorObject c ax n m cs st) k = (c = k)"
| "instanceof e k = False"

fun isAxiosError :: "js_value \<Rightarrow> bool" where
  "isAxiosError (ErrorObject c ax n m cs st) = ax"
| "isAxiosError e = False"

text \<open>Property reads \<open>e.name\<close>, \<open>e.message\<close>, \<open>e.cause\<close>, \<open>e.stack\<close>.\<close>

fun name_of :: "js_value \<Rightarrow> string" where
  "name_of (ErrorObject c ax n m cs st) = n"
| "name_of (InternalServerErrorException m cs d) = ''InternalServerErrorException''"
| "name_of (BadRequestException m cs d) = ''BadRequestException''"
| "name_of (StringValue s) = []"

fun message_of :: "js_value \<Rightarrow> string" where
  "message_of (ErrorObject c ax n m cs st) = m"
| "message_of (InternalServerErrorException m cs d) = m"
| "message_of (BadRequestException m cs d) = m"
| "message_of (StringValue s) = []"

fun cause_of :: "js_value \<Rightarrow> js_value option" where
  "cause_of (ErrorObject c ax n m cs st) = cs"
| "cause_of (InternalServerErrorException m cs d) = cs"
| "cause_of (BadRequestException m cs d) = cs"
| "cause_of (StringValue s) = None"

fun stack_of :: "js_value \<Rightarrow> string option" where
  "stack_of (ErrorObject c ax n m cs st) = st"
| "stack_of e = None"

fun description_of :: "js_value \<Rightarrow> string option" where
  "description_of (InternalServerErrorException m cs d) = d"
| "description_of (BadRequestException m cs d) = d"
| "description_of e = None"

text \<open>The HTTP status a framework exception stands for; other values have none.\<close>

fun status_of :: "js_value \<Rightarrow> nat option" where
  "status_of (InternalServerErrorException m cs d) = Some 500"
| "status_of (BadRequestException m cs d) = Some 400"
| "status_of e = None"

text \<open>
  \<open>e.toString()\<close>: a string is itself; an error prints as \<open>name: message\<close>, or only the
  one of the two that is not empty.
\<close>

fun toString :: "js_value \<Rightarrow> string" where
  "toString (StringValue s) = s"
| "toString e =
     (if name_of e = [] then message_of e
      else if message_of e = [] then name_of e
      else name_of e @ '': '' @ message_of e)"

definition handleNestException :: "js_value \<Rightarrow> js_value" where
  "handleNestException e =
     (if instanceof e MongooseError then
        InternalServerErrorException (message_of e) (Some (StringValue (message_of e))) (stack_of e)
      else if isAxiosError e then
        InternalServerErrorException (message_of e) (cause_of e) (stack_of e)
      else if instanceof e TypeGuardError then
        BadRequestException (message_of e) (Some e) (Some (message_of e))
      else e)"

section \<open>Request-scoped state and the session accessor\<close>

text \<open>
  The two properties the interceptor writes on the request object; \<open>None\<close> is a
  property that was never assigned.
\<close>

record request =
  transactions :: "TransactionInstance list option"
  isUsingTransaction :: "bool option"

definition misuse_error :: js_value where
  "misuse_error = InternalServerErrorException
     ''TransactionParam can only be used with routes that have the TransactionInterceptor applied''
     None None"

text \<open>
  \<open>TransactionParam\<close>: the decorator's factory, applied to its data argument (\<open>None\<close> when
  the decorator is written without a name) and the request. \<open>Inl\<close> is the exception it
  throws, \<open>Inr None\<close> is \<open>null\<close>.
\<close>

definition TransactionParam :: "string option \<Rightarrow> request \<Rightarrow> js_value + handle option" where
  "TransactionParam data req =
     (let d = (case data of None \<Rightarrow> ''default'' | Some n \<Rightarrow> n) in
      if isUsingTransaction req \<noteq> Some True then Inl misuse_error
      else Inr (case transactions req of
                  None \<Rightarrow> None
                | Some ts \<Rightarrow> (case find (\<lambda>t. name t = d) ts of
                               None \<Rightarrow> None
                             | Some t \<Rightarrow> session t)))"

section \<open>The data store as seen by the coordinator\<close>

datatype store_op = StartSession | StartTransaction | CommitTransaction | AbortTransaction | EndSession

text \<open>
  The trace of a request: \<open>Called\<close> when the coordinator invokes an operation of the
  client on a session, \<open>Settled\<close> when the coordinator has awaited the promise of that
  operation (fulfilled or rejected), \<open>Emitted\<close> when the stream the interceptor
  returned hands a value to its subscriber, \<open>Raised\<close> when that stream ends with
  an error.
\<close>

datatype event = Called store_op handle | Settled store_op handle | Emitted | Raised js_value

record world =
  trace :: "event list"
  logged :: "string list"
  next_handle :: handle

text \<open>
  How the client answers: \<open>None\<close> when the operation on that session succeeds,
  \<open>Some e\<close> when it fails with \<open>e\<close>.
\<close>

type_synonym driver = "store_op \<Rightarrow> handle \<Rightarrow> js_value option"

datatype Connection = Connection string

record TransactionInterceptor =
  databaseGlobalConnection :: "Connection option"
  transactionsToBeGeneratedInInterceptor :: "TransactionInstance list"

text \<open>
  The constructor receives the injected connection only; the list of transactions to
  generate is the empty array of the field initialiser.
\<close>

definition constructor :: "Connection option \<Rightarrow> TransactionInterceptor" where
  "constructor conn =
     \<lparr>databaseGlobalConnection = conn, transactionsToBeGeneratedInInterceptor = []\<rparr>"

definition no_connections_error :: js_value where
  "no_connections_error = ErrorObject OtherError False ''Error'' ''No connections found'' None None"

definition getConnection :: "TransactionInterceptor \<Rightarrow> js_value + Connection" where
  "getConnection icp =
     (case databaseGlobalConnection icp of
        None \<Rightarrow> Inl no_connections_error
      | Some c \<Rightarrow> Inr c)"

text \<open>
  The \<open>TypeError\<close> of reading the property \<open>property\<close> of a slot that was never
  assigned.
\<close>

definition null_dereference :: "string \<Rightarrow> js_value" where
  "null_dereference property = ErrorObject OtherError False ''TypeError''
     (''Cannot read properties of undefined (reading '' @ [CHR 0x27] @ property @ [CHR 0x27] @ '')'')
     None None"

text \<open>The method of the session an operation calls.\<close>

fun method_name :: "store_op \<Rightarrow> string" where
  "method_name StartSession = ''startSession''"
| "method_name StartTransaction = ''startTransaction''"
| "method_name CommitTransaction = ''commitTransaction''"
| "method_name AbortTransaction = ''abortTransaction''"
| "method_name EndSession = ''endSession''"

definition logger_error :: "string \<Rightarrow> world \<Rightarrow> world" where
  "logger_error msg s = s\<lparr>logged := logged s @ [msg]\<rparr>"

text \<open>\<open>await connection.startSession(options)\<close>.\<close>

definition startSession ::
  "driver \<Rightarrow> Connection \<Rightarrow> ClientSessionOptions option \<Rightarrow> world \<Rightarrow> (js_value + handle) \<times> world" where
  "startSession drv c opts s =
     (let h = next_handle s;
          s1 = s\<lparr>trace := trace s @ [Called StartSession h, Settled StartSession h],
                 next_handle := Suc h\<rparr>
      in case drv StartSession h of
           Some e \<Rightarrow> (Inl e, s1)
         | None \<Rightarrow> (Inr h, s1))"

text \<open>\<open>session.startTransaction(options)\<close>, a synchronous call.\<close>

definition startTransaction ::
  "driver \<Rightarrow> handle \<Rightarrow> TransactionOptions option \<Rightarrow> world \<Rightarrow> (js_value + unit) \<times> world" where
  "startTransaction drv h topts s =
     (let s1 = s\<lparr>trace := trace s @ [Called StartTransaction h]\<rparr>
      in case drv StartTransaction h of
           Some e \<Rightarrow> (Inl e, s1)
         | None \<Rightarrow> (Inr (), s1))"

text \<open>
  The three statements both branches of \<open>generateTransactions\<close> run for one instance:
  open a session on the connection, begin the transaction, store the handle.
\<close>

definition open_session_for ::
  "TransactionInterceptor \<Rightarrow> driver \<Rightarrow> TransactionInstance \<Rightarrow> world \<Rightarrow>
     (js_value + TransactionInstance) \<times> world" where
  "open_session_for icp drv t s =
     (case getConnection icp of
        Inl e \<Rightarrow> (Inl e, s)
      | Inr c \<Rightarrow>
          (case startSession drv c (sessionOptions t) s of
             (Inl e, s1) \<Rightarrow> (Inl e, s1)
           | (Inr h, s1) \<Rightarrow>
               (case sessionOptions t of
                  None \<Rightarrow> (Inl (null_dereference ''defaultTransactionOptions''), s1)
                | Some so \<Rightarrow>
                    (case startTransaction drv h (defaultTransactionOptions so) s1 of
                       (Inl e, s2) \<Rightarrow> (Inl e, s2)
                     | (Inr u, s2) \<Rightarrow> (Inr (t\<lparr>session := Some h\<rparr>), s2)))))"

text \<open>
  The \<open>for ... of\<close> loop of the multi-session branch. The source writes the handle on
  the coordinator's own template object and pushes that object; within one request
  only the pushed instance is read, which is what the loop returns.
\<close>

fun generate_loop ::
  "TransactionInterceptor \<Rightarrow> driver \<Rightarrow> TransactionInstance list \<Rightarrow> TransactionInstance list \<Rightarrow>
     world \<Rightarrow> (js_value + TransactionInstance list) \<times> world" where
  "generate_loop icp drv [] transactionsArray s = (Inr transactionsArray, s)"
| "generate_loop icp drv (t # rest) transactionsArray s =
     (case open_session_for icp drv t s of
        (Inl e, s1) \<Rightarrow> (Inl e, s1)
      | (Inr t', s1) \<Rightarrow> generate_loop icp drv rest (transactionsArray @ [t']) s1)"

text \<open>
  \<open>generateTransactions\<close>; \<open>node_env\<close> is \<open>process.env.NODE_ENV\<close>.
\<close>

definition generateTransactions ::
  "string option \<Rightarrow> TransactionInterceptor \<Rightarrow> driver \<Rightarrow> world \<Rightarrow>
     (js_value + TransactionInstance list) \<times> world" where
  "generateTransactions node_env icp drv s =
     (if node_env = Some ''test'' then (Inr [], s)
      else if length (transactionsToBeGeneratedInInterceptor icp) = 0 then
        (let dbTransaction =
               \<lparr>sessionOptions = Some defaultSessionOptions, name = ''default'', session = None\<rparr>
         in case open_session_for icp drv dbTransaction s of
              (Inl e, s1) \<Rightarrow> (Inl e, s1)
            | (Inr t', s1) \<Rightarrow> (Inr [t'], s1))
      else generate_loop icp drv (transactionsToBeGeneratedInInterceptor icp) [] s)"

section \<open>Promises and the settle-all fan-out\<close>

text \<open>A promise that has settled.\<close>

datatype 'a promise = Fulfilled 'a | Rejected js_value

text \<open>
  A promise the client returned for one operation on one session, with the answer it
  will settle to.
\<close>

type_synonym pending = "store_op \<times> handle \<times> js_value option"

text \<open>
  \<open>transactions.map(transaction => transaction.session!.op())\<close>: the calls are made one
  after the other, in list order; an instance without a handle stops the map with a
  \<open>TypeError\<close>.
\<close>

fun call_each ::
  "store_op \<Rightarrow> driver \<Rightarrow> TransactionInstance list \<Rightarrow> world \<Rightarrow> (js_value + pending list) \<times> world" where
  "call_each operation drv [] s = (Inr [], s)"
| "call_each operation drv (t # rest) s =
     (case session t of
        None \<Rightarrow> (Inl (null_dereference (method_name operation)), s)
      | Some h \<Rightarrow>
          (case call_each operation drv rest (s\<lparr>trace := trace s @ [Called operation h]\<rparr>) of
             (Inl e, s1) \<Rightarrow> (Inl e, s1)
           | (Inr ps, s1) \<Rightarrow> (Inr ((operation, h, drv operation h) # ps), s1)))"

text \<open>
  \<open>await Promise.allSettled(promiseMap)\<close>: every promise of the list has settled when
  the result is there, and the result is fulfilled whatever the promises did. The
  order in which the promises settle is not fixed by the source; the trace lists them
  in list order.
\<close>

definition allSettled :: "pending list \<Rightarrow> world \<Rightarrow> (js_value option list) promise \<times> world" where
  "allSettled ps s =
     (Fulfilled (map (\<lambda>(operation, h, r). r) ps),
      s\<lparr>trace := trace s @ map (\<lambda>(operation, h, r). Settled operation h) ps\<rparr>)"

text \<open>\<open>promise.catch(handler)\<close>: the handler runs on a rejected promise only.\<close>

fun catch_promise :: "'a promise \<Rightarrow> (js_value \<Rightarrow> world \<Rightarrow> world) \<Rightarrow> world \<Rightarrow> world" where
  "catch_promise (Fulfilled x) handler s = s"
| "catch_promise (Rejected e) handler s = handler e s"

text \<open>
  \<open>commitAllTransactions\<close>. The function makes the calls and then waits at its
  \<open>await\<close>; \<open>meanwhile\<close> is what runs outside before the function resumes (in
  \<open>tap\<close>: the value is handed on to the subscriber).
\<close>

definition commitAllTransactions ::
  "driver \<Rightarrow> TransactionInstance list \<Rightarrow> (world \<Rightarrow> world) \<Rightarrow> world \<Rightarrow> (js_value + unit) \<times> world" where
  "commitAllTransactions drv ts meanwhile s =
     (case call_each CommitTransaction drv ts s of
        (Inl e, s1) \<Rightarrow> (Inl e, meanwhile s1)
      | (Inr promiseMap, s1) \<Rightarrow>
          (case allSettled promiseMap (meanwhile s1) of
             (p, s2) \<Rightarrow>
               (Inr (), catch_promise p
                  (\<lambda>commitError. logger_error (''Could not commit transaction: '' @ toString commitError))
                  s2)))"

definition endAllSessions ::
  "driver \<Rightarrow> TransactionInstance list \<Rightarrow> world \<Rightarrow> (js_value + unit) \<times> world" where
  "endAllSessions drv ts s =
     (case call_each EndSession drv ts s of
        (Inl e, s1) \<Rightarrow> (Inl e, s1)
      | (Inr promiseMap, s1) \<Rightarrow>
          (case allSettled promiseMap s1 of
             (p, s2) \<Rightarrow>
               (Inr (), catch_promise p
                  (\<lambda>endSessionError. logger_error (''Could not release connection: '' @ toString endSessionError))
                  s2)))"

text \<open>
  \<open>handleTransactionExceptions\<close> always throws; the first component is the value it
  throws.
\<close>

definition handleTransactionExceptions ::
  "driver \<Rightarrow> TransactionInstance list \<Rightarrow> js_value \<Rightarrow> world \<Rightarrow> js_value \<times> world" where
  "handleTransactionExceptions drv ts e s =
     (case call_each AbortTransaction drv ts s of
        (Inl te, s1) \<Rightarrow> (te, s1)
      | (Inr promiseMap, s1) \<Rightarrow>
          (case allSettled promiseMap s1 of
             (p, s2) \<Rightarrow>
               (case endAllSessions drv ts
                       (catch_promise p
                          (\<lambda>rollbackError. logger_error (''Could not rollback transaction: '' @ toString rollbackError))
                          s2) of
                  (Inl te, s3) \<Rightarrow> (te, s3)
                | (Inr u, s3) \<Rightarrow> (handleNestException e, s3))))"

section \<open>The interceptor\<close>

text \<open>
  The stream behind \<open>next.handle()\<close>, as the route handler determines it from the
  request the interceptor prepared: the values it emits, in order, and how it ends, by
  completing (\<open>None\<close>) or with an error. A handler that returns a value or a promise
  gives one value and completes, or no value and the error it throws; a handler that
  returns a stream of its own gives any such stream. The handler leaves commit, abort
  and end of the sessions to the interceptor.
\<close>

datatype 'v stream = Stream "'v list" "js_value option"

definition emit_value :: "world \<Rightarrow> world" where
  "emit_value s = s\<lparr>trace := trace s @ [Emitted]\<rparr>"

definition raise_error :: "js_value \<Rightarrow> world \<Rightarrow> world" where
  "raise_error e s = s\<lparr>trace := trace s @ [Raised e]\<rparr>"

text \<open>
  What \<open>tap\<close> does with one value: it calls the \<open>async\<close> callback, which runs up
  to the \<open>await\<close> inside \<open>commitAllTransactions\<close>, hands the value on to the
  subscriber, and the callback goes on later. Nothing awaits or catches the promise of
  the callback, so an exception inside it reaches nobody.
\<close>

definition tap_callback :: "driver \<Rightarrow> TransactionInstance list \<Rightarrow> world \<Rightarrow> world" where
  "tap_callback drv ts s =
     (case commitAllTransactions drv ts emit_value s of
        (Inl e, s1) \<Rightarrow> s1
      | (Inr u, s1) \<Rightarrow> snd (endAllSessions drv ts s1))"

text \<open>
  \<open>tap\<close> over the values of the stream: once per value, never on completion. The
  callback of a value is taken to have finished when the next value or the end of the
  stream arrives; when they arrive earlier, the same calls are made on the same
  sessions and only their order in the trace differs.
\<close>

fun tap_values :: "driver \<Rightarrow> TransactionInstance list \<Rightarrow> 'v list \<Rightarrow> world \<Rightarrow> world" where
  "tap_values drv ts [] s = s"
| "tap_values drv ts (v # vs) s = tap_values drv ts vs (tap_callback drv ts s)"

text \<open>The values of the degraded path pass through with no callback.\<close>

fun pass_values :: "'v list \<Rightarrow> world \<Rightarrow> world" where
  "pass_values [] s = s"
| "pass_values (v # vs) s = pass_values vs (emit_value s)"

text \<open>
  \<open>intercept\<close>, together with the subscription to the stream it returns: the stream
  the subscriber sees, the request as the handler saw it, and the world afterwards.
  \<open>catchError\<close> replaces the error of the handler's stream by what its selector
  gives: the rejected promise of \<open>handleTransactionExceptions\<close>, or the
  \<open>throwError\<close> of the degraded path.
\<close>

definition intercept ::
  "string option \<Rightarrow> TransactionInterceptor \<Rightarrow> driver \<Rightarrow> (request \<Rightarrow> 'v stream) \<Rightarrow>
     request \<Rightarrow> world \<Rightarrow> 'v stream \<times> request \<times> world" where
  "intercept node_env icp drv handler req s =
     (case generateTransactions node_env icp drv s of
        (Inr ts, s1) \<Rightarrow>
          (let req1 = req\<lparr>transactions := Some ts, isUsingTransaction := Some True\<rparr>
           in case handler req1 of
                Stream vs ending \<Rightarrow>
                  (case ending of
                     None \<Rightarrow> (Stream vs None, req1, tap_values drv ts vs s1)
                   | Some e \<Rightarrow>
                       (case handleTransactionExceptions drv ts e (tap_values drv ts vs s1) of
                          (e', s2) \<Rightarrow> (Stream vs (Some e'), req1, raise_error e' s2))))
      | (Inl e, s1) \<Rightarrow>
          (case handler req of
             Stream vs ending \<Rightarrow>
               (case ending of
                  None \<Rightarrow> (Stream vs None, req, pass_values vs s1)
                | Some e2 \<Rightarrow>
                    (let lock = StringValue (''Failed To Acquire Mongoose lock '' @ toString e)
                     in (Stream vs (Some lock), req, raise_error lock (pass_values vs s1))))))"

section \<open>Vocabulary of the properties\<close>

text \<open>The name a lookup asks for: \<open>"default"\<close> when the decorator is given none.\<close>

definition requested_name :: "string option \<Rightarrow> string" where
  "requested_name data = (case data of None \<Rightarrow> ''default'' | Some n \<Rightarrow> n)"

text \<open>The events of opening one session: the awaited \<open>startSession\<close>, then \<open>startTransaction\<close>.\<close>

definition open_events :: "handle \<Rightarrow> event list" where
  "open_events h = [Called StartSession h, Settled StartSession h, Called StartTransaction h]"

text \<open>What a run added to the trace.\<close>

definition new_events :: "world \<Rightarrow> world \<Rightarrow> event list" where
  "new_events s s' = drop (length (trace s)) (trace s')"

text \<open>The handles of the sessions a trace opens, in the order of opening.\<close>

fun opened :: "event list \<Rightarrow> handle list" where
  "opened [] = []"
| "opened (Called StartSession h # evs) = h # opened evs"
| "opened (ev # evs) = opened evs"

text \<open>How many sessions a coordinator opens for one request in normal operation.\<close>

definition session_count :: "TransactionInterceptor \<Rightarrow> nat" where
  "session_count icp =
     (if transactionsToBeGeneratedInInterceptor icp = [] then 1
      else length (transactionsToBeGeneratedInInterceptor icp))"


text \<open>What a subscriber of a stream is handed: its values, then its error if it has one.\<close>

fun reply_events :: "'v stream \<Rightarrow> event list" where
  "reply_events (Stream vs None) = replicate (length vs) Emitted"
| "reply_events (Stream vs (Some e)) = replicate (length vs) Emitted @ [Raised e]"



subsection \<open>Concrete requests\<close>

definition fresh_request :: request where
  "fresh_request = \<lparr>transactions = None, isUsingTransaction = None\<rparr>"

definition initial_world :: world where
  "initial_world = \<lparr>trace = [], logged = [], next_handle = 0\<rparr>"

text \<open>A client on which every operation succeeds.\<close>

definition reliable_driver :: driver where
  "reliable_driver operation h = None"

definition write_conflict :: js_value where
  "write_conflict = ErrorObject OtherError False ''MongoServerError'' ''WriteConflict'' None None"

text \<open>A client that rejects the commit on the first session opened and nothing else.\<close>

definition commit_rejecting_driver :: driver where
  "commit_rejecting_driver operation h =
     (if operation = CommitTransaction \<and> h = 0 then Some write_conflict else None)"

definition buffering_timeout :: js_value where
  "buffering_timeout = ErrorObject MongooseError False ''MongooseError''
     ''Operation users.insertOne() buffering timed out'' None (Some ''at Timeout.handler'')"

text \<open>A handler that returns; one that throws; one with one \<open>@TransactionParam(data)\<close>
  parameter, which it returns.\<close>

definition succeeding_handler :: "request \<Rightarrow> unit stream" where
  "succeeding_handler r = Stream [()] None"

definition failing_handler :: "request \<Rightarrow> unit stream" where
  "failing_handler r = Stream [] (Some buffering_timeout)"

definition accessor_handler :: "string option \<Rightarrow> request \<Rightarrow> handle option stream" where
  "accessor_handler data r =
     (case TransactionParam data r of
        Inl e \<Rightarrow> Stream [] (Some e)
      | Inr h \<Rightarrow> Stream [h] None)"

text \<open>A handler that returns a stream which completes without a value.\<close>

definition silent_handler :: "request \<Rightarrow> unit stream" where
  "silent_handler r = Stream [] None"

text \<open>A handler that returns a stream which emits one value and then fails.\<close>

definition late_failing_handler :: "request \<Rightarrow> unit stream" where
  "late_failing_handler r = Stream [()] (Some buffering_timeout)"

definition bound_instance :: "string \<Rightarrow> ClientSessionOptions \<Rightarrow> handle \<Rightarrow> TransactionInstance" where
  "bound_instance n so h = \<lparr>sessionOptions = Some so, name = n, session = Some h\<rparr>"

definition database :: Connection where
  "database = Connection ''db''"

text \<open>A coordinator whose list holds two templates of the same name.\<close>

definition duplicate_config :: TransactionInterceptor where
  "duplicate_config =
     \<lparr>databaseGlobalConnection = Some database,
      transactionsToBeGeneratedInInterceptor =
        [new_TransactionInstance ''orders'' defaultSessionOptions,
         new_TransactionInstance ''orders'' readOnlySessionOptions]\<rparr>"

text \<open>A coordinator whose list holds the templates \<open>"default"\<close> and \<open>"analytics"\<close>.\<close>

definition two_session_config :: TransactionInterceptor where
  "two_session_config =
     \<lparr>databaseGlobalConnection = Some database,
      transactionsToBeGeneratedInInterceptor =
        [new_TransactionInstance ''default'' defaultSessionOptions,
         new_TransactionInstance ''analytics'' readOnlySessionOptions]\<rparr>"

definition two_session_request :: request where
  "two_session_request =
     \<lparr>transactions = Some [bound_instance ''default'' defaultSessionOptions 0,
                           bound_instance ''analytics'' readOnlySessionOptions 1],
      isUsingTransaction = Some True\<rparr>"

lemmas run_defs = intercept_def generateTransactions_def constructor_def open_session_for_def
  getConnection_def startSession_def startTransaction_def tap_callback_def
  commitAllTransactions_def endAllSessions_def handleTransactionExceptions_def allSettled_def
  emit_value_def raise_error_def
  fresh_request_def initial_world_def reliable_driver_def database_def Let_def

lemmas cfg_defs = duplicate_config_def two_session_config_def new_TransactionInstance_def
  new_TransactionsTemplate_def TransactionsTemplate.extend_def TransactionInstance.fields_def
  TransactionsTemplate.defs TransactionInstance.defs commit_rejecting_driver_def
  succeeding_handler_def failing_handler_def accessor_handler_def silent_handler_def
  late_failing_handler_def bound_instance_def
  two_session_request_def

section \<open>Auxiliary facts\<close>

subsection \<open>A fan-out over instances that all hold a handle\<close>






lemma pass_values_ok:
  "pass_values vs s = s\<lparr>trace := trace s @ replicate (length vs) Emitted\<rparr>"
proof (induction vs arbitrary: s)
  case Nil
  then show ?case by simp
next
  case (Cons v vs)
  show ?case
    by (simp add: Cons.IH emit_value_def replicate_append_same [symmetric] del: replicate_Suc)
      (simp add: replicate_app_Cons_same)
qed


lemma open_session_for_ok:
  assumes "databaseGlobalConnection icp = Some c"
    and "sessionOptions t \<noteq> None"
    and "drv StartSession (next_handle s) = None"
    and "drv StartTransaction (next_handle s) = None"
  shows "open_session_for icp drv t s =
     (Inr (t\<lparr>session := Some (next_handle s)\<rparr>),
      s\<lparr>trace := trace s @ open_events (next_handle s), next_handle := Suc (next_handle s)\<rparr>)"
  using assms
  by (auto simp add: open_session_for_def getConnection_def startSession_def startTransaction_def
      open_events_def Let_def)

lemma generate_loop_ok:
  assumes "databaseGlobalConnection icp = Some c"
    and "\<forall>t\<in>set ts. sessionOptions t \<noteq> None"
    and "\<forall>h. drv StartSession h = None \<and> drv StartTransaction h = None"
  shows "generate_loop icp drv ts acc s =
     (Inr (acc @ map2 (\<lambda>t h. t\<lparr>session := Some h\<rparr>) ts [next_handle s ..< next_handle s + length ts]),
      s\<lparr>trace := trace s @ concat (map open_events [next_handle s ..< next_handle s + length ts]),
         next_handle := next_handle s + length ts\<rparr>)"
  using assms(2)
proof (induction ts arbitrary: acc s)
  case Nil
  then show ?case by simp
next
  case (Cons t ts)
  have step: "open_session_for icp drv t s =
     (Inr (t\<lparr>session := Some (next_handle s)\<rparr>),
      s\<lparr>trace := trace s @ open_events (next_handle s), next_handle := Suc (next_handle s)\<rparr>)"
    using open_session_for_ok [OF assms(1), of t drv s] Cons.prems assms(3) by simp
  have rest: "\<forall>t\<in>set ts. sessionOptions t \<noteq> None"
    using Cons.prems by simp
  have range: "[next_handle s ..< next_handle s + length (t # ts)]
      = next_handle s # [Suc (next_handle s) ..< Suc (next_handle s) + length ts]"
    using upt_conv_Cons [of "next_handle s" "next_handle s + Suc (length ts)"] by simp
  show ?case
    unfolding range
    by (simp add: step Cons.IH [OF rest])
qed

lemma generateTransactions_ok:
  assumes "node_env \<noteq> Some ''test''"
    and "databaseGlobalConnection icp = Some c"
    and "\<forall>t\<in>set (transactionsToBeGeneratedInInterceptor icp). sessionOptions t \<noteq> None"
    and "\<forall>h. drv StartSession h = None \<and> drv StartTransaction h = None"
  shows "\<exists>ts. generateTransactions node_env icp drv s =
           (Inr ts,
            s\<lparr>trace := trace s @ concat (map open_events [next_handle s ..< next_handle s + session_count icp]),
               next_handle := next_handle s + session_count icp\<rparr>)
         \<and> map session ts = map Some [next_handle s ..< next_handle s + session_count icp]
         \<and> map name ts = (if transactionsToBeGeneratedInInterceptor icp = [] then [''default'']
                           else map name (transactionsToBeGeneratedInInterceptor icp))"
proof (cases "transactionsToBeGeneratedInInterceptor icp = []")
  case True
  have "open_session_for icp drv
          \<lparr>sessionOptions = Some defaultSessionOptions, name = ''default'', session = None\<rparr> s =
        (Inr \<lparr>sessionOptions = Some defaultSessionOptions, name = ''default'',
              session = Some (next_handle s)\<rparr>,
         s\<lparr>trace := trace s @ open_events (next_handle s), next_handle := Suc (next_handle s)\<rparr>)"
    using open_session_for_ok [OF assms(2), of
        "\<lparr>sessionOptions = Some defaultSessionOptions, name = ''default'', session = None\<rparr>" drv s]
      assms(4) by simp
  then show ?thesis
    using True assms(1) by (simp add: generateTransactions_def session_count_def)
next
  case False
  let ?tmpl = "transactionsToBeGeneratedInInterceptor icp"
  let ?hs = "[next_handle s ..< next_handle s + length ?tmpl]"
  have len: "length ?hs = length ?tmpl" by simp
  have "map session (map2 (\<lambda>t h. t\<lparr>session := Some h\<rparr>) ?tmpl ?hs) = map Some ?hs"
    using len by (intro nth_equalityI) simp_all
  moreover have "map name (map2 (\<lambda>t h. t\<lparr>session := Some h\<rparr>) ?tmpl ?hs) = map name ?tmpl"
    using len by (intro nth_equalityI) simp_all
  ultimately show ?thesis
    using False assms(1) generate_loop_ok [OF assms(2,3,4), of "[]" s]
    by (simp add: generateTransactions_def session_count_def)
qed

lemma new_events_append: "trace s' = trace s @ evs \<Longrightarrow> new_events s s' = evs"
  by (simp add: new_events_def)


lemma opened_open_events: "opened (concat (map open_events hs)) = hs"
  by (induction hs) (simp_all add: open_events_def)




lemma count_list_absent: "x \<notin> set xs \<Longrightarrow> count_list xs x = 0"
  by (induction xs) auto


lemma open_events_set:
  "ev \<in> set (concat (map open_events hs)) \<Longrightarrow>
     (\<exists>h. ev = Called StartSession h \<or> ev = Settled StartSession h \<or> ev = Called StartTransaction h)"
  by (auto simp add: open_events_def)

subsection \<open>The shape of a round\<close>















subsection \<open>Nothing is ever logged\<close>

lemma call_each_logged: "call_each operation drv ts s = (r, s') \<Longrightarrow> logged s' = logged s"
proof (induction ts arbitrary: s r s')
  case Nil
  then show ?case by simp
next
  case (Cons t ts)
  show ?case
  proof (cases "session t")
    case None
    then show ?thesis using Cons.prems by simp
  next
    case (Some h)
    obtain r1 s1 where rest: "call_each operation drv ts (s\<lparr>trace := trace s @ [Called operation h]\<rparr>) = (r1, s1)"
      by (cases "call_each operation drv ts (s\<lparr>trace := trace s @ [Called operation h]\<rparr>)")
    have "logged s1 = logged s"
      using Cons.IH [OF rest] by simp
    moreover have "s' = s1"
      using Cons.prems Some rest by (cases r1) auto
    ultimately show ?thesis by simp
  qed
qed

lemma commitAllTransactions_logged:
  "commitAllTransactions drv ts emit_value s = (r, s') \<Longrightarrow> logged s' = logged s"
  by (auto simp add: commitAllTransactions_def allSettled_def emit_value_def
      split: prod.splits sum.splits dest!: call_each_logged)

lemma endAllSessions_logged:
  "endAllSessions drv ts s = (r, s') \<Longrightarrow> logged s' = logged s"
  by (auto simp add: endAllSessions_def allSettled_def
      split: prod.splits sum.splits dest!: call_each_logged)

lemma tap_callback_logged: "logged (tap_callback drv ts s) = logged s"
proof (cases "commitAllTransactions drv ts emit_value s")
  case (Pair r s1)
  have s1: "logged s1 = logged s"
    using Pair by (rule commitAllTransactions_logged)
  show ?thesis
  proof (cases r)
    case (Inl e)
    then show ?thesis using Pair s1 by (simp add: tap_callback_def)
  next
    case (Inr u)
    obtain r2 s2 where e: "endAllSessions drv ts s1 = (r2, s2)"
      by (cases "endAllSessions drv ts s1")
    have "logged s2 = logged s1"
      using e by (rule endAllSessions_logged)
    then show ?thesis using Pair Inr s1 e by (simp add: tap_callback_def)
  qed
qed

lemma tap_values_logged: "logged (tap_values drv ts vs s) = logged s"
  by (induction vs arbitrary: s) (simp_all add: tap_callback_logged)

lemma pass_values_logged: "logged (pass_values vs s) = logged s"
  by (induction vs arbitrary: s) (simp_all add: emit_value_def)

lemma handleTransactionExceptions_logged:
  "handleTransactionExceptions drv ts e s = (r, s') \<Longrightarrow> logged s' = logged s"
  by (auto simp add: handleTransactionExceptions_def allSettled_def
      split: prod.splits sum.splits dest!: call_each_logged endAllSessions_logged)

lemma open_session_for_logged:
  "open_session_for icp drv t s = (r, s') \<Longrightarrow> logged s' = logged s"
  by (auto simp add: open_session_for_def startSession_def startTransaction_def Let_def
      split: sum.splits option.splits)

lemma generate_loop_logged:
  "generate_loop icp drv ts acc s = (r, s') \<Longrightarrow> logged s' = logged s"
proof (induction ts arbitrary: acc s)
  case Nil
  then show ?case by simp
next
  case (Cons t ts)
  obtain r1 s1 where o: "open_session_for icp drv t s = (r1, s1)"
    by (cases "open_session_for icp drv t s")
  have s1: "logged s1 = logged s"
    using o by (rule open_session_for_logged)
  show ?case
  proof (cases r1)
    case (Inl e)
    then show ?thesis using Cons.prems o s1 by simp
  next
    case (Inr t')
    then have "generate_loop icp drv ts (acc @ [t']) s1 = (r, s')"
      using Cons.prems o by simp
    then show ?thesis using Cons.IH s1 by simp
  qed
qed

lemma generateTransactions_logged:
  "generateTransactions node_env icp drv s = (r, s') \<Longrightarrow> logged s' = logged s"
  by (auto simp add: generateTransactions_def Let_def
      split: prod.splits sum.splits if_splits
      dest!: open_session_for_logged generate_loop_logged)

lemma intercept_logs_nothing:
  "intercept node_env icp drv handler req s = (resp, req', s') \<Longrightarrow> logged s' = logged s"
proof -
  assume run: "intercept node_env icp drv handler req s = (resp, req', s')"
  obtain r s1 where g: "generateTransactions node_env icp drv s = (r, s1)"
    by (cases "generateTransactions node_env icp drv s")
  have s1: "logged s1 = logged s"
    using g by (rule generateTransactions_logged)
  show ?thesis
  proof (cases r)
    case (Inl e)
    then show ?thesis
      using run g s1
      by (auto simp add: intercept_def Let_def raise_error_def pass_values_logged
          split: stream.splits option.splits)
  next
    case (Inr ts)
    show ?thesis
      using run g Inr s1
      by (auto simp add: intercept_def Let_def raise_error_def tap_values_logged
          split: stream.splits option.splits prod.splits
          dest!: handleTransactionExceptions_logged)
  qed
qed

subsection \<open>Lookups and the missing connection\<close>

lemma find_first: "\<forall>u\<in>set pre. \<not> P u \<Longrightarrow> P t \<Longrightarrow> find P (pre @ t # post) = Some t"
  by (induction pre) auto

lemma find_distinct_name:
  "distinct (map name ts) \<Longrightarrow> t \<in> set ts \<Longrightarrow> find (\<lambda>u. name u = name t) ts = Some t"
  by (induction ts) (auto simp: image_iff)

lemma find_absent: "\<forall>u\<in>set ts. \<not> P u \<Longrightarrow> find P ts = None"
  by (induction ts) auto

lemma tap_values_empty: "tap_values drv [] vs s = pass_values vs s"
proof (induction vs arbitrary: s)
  case Nil
  then show ?case by simp
next
  case (Cons v vs)
  have "tap_callback drv [] s = emit_value s"
    by (simp add: tap_callback_def commitAllTransactions_def endAllSessions_def allSettled_def)
  then show ?case by (simp add: Cons.IH)
qed

lemma reply_events_quiet:
  "Called operation h \<notin> set (reply_events r) \<and> Settled operation h \<notin> set (reply_events r)"
  by (cases r rule: reply_events.cases) auto

lemma no_connection_generate:
  "node_env \<noteq> Some ''test'' \<Longrightarrow> databaseGlobalConnection icp = None \<Longrightarrow>
   generateTransactions node_env icp drv s = (Inl no_connections_error, s)"
  by (cases "transactionsToBeGeneratedInInterceptor icp")
     (simp_all add: generateTransactions_def open_session_for_def getConnection_def)

section \<open>The claims\<close>







text \<open>
  Claim C3, as the code has it. The constructor takes the connection only: it checks
  no names, cannot fail, and leaves the list of templates empty. Nothing later checks
  the names either: in normal operation, with a connection and every session opened
  successfully, session generation answers with one instance per entry of the list,
  under the names of the list in their order, repeated names included (and with the
  single instance \<open>"default"\<close> when the list is empty), and opens one session for each.
\<close>

theorem duplicate_names_not_rejected:
  "transactionsToBeGeneratedInInterceptor (constructor conn) = []
   \<and> databaseGlobalConnection (constructor conn) = conn
   \<and> (node_env \<noteq> Some ''test''
        \<and> databaseGlobalConnection icp = Some c
        \<and> (\<forall>t\<in>set (transactionsToBeGeneratedInInterceptor icp). sessionOptions t \<noteq> None)
        \<and> (\<forall>h. drv StartSession h = None \<and> drv StartTransaction h = None)
        \<and> generateTransactions node_env icp drv s = (r, s')
      \<longrightarrow> (\<exists>ts. r = Inr ts
             \<and> map name ts = (if transactionsToBeGeneratedInInterceptor icp = [] then [''default'']
                               else map name (transactionsToBeGeneratedInInterceptor icp))
             \<and> map session ts = map Some (opened (new_events s s'))
             \<and> length (opened (new_events s s')) = session_count icp))"
proof -
  have gen: "\<exists>ts. r = Inr ts
             \<and> map name ts = (if transactionsToBeGeneratedInInterceptor icp = [] then [''default'']
                               else map name (transactionsToBeGeneratedInInterceptor icp))
             \<and> map session ts = map Some (opened (new_events s s'))
             \<and> length (opened (new_events s s')) = session_count icp"
    if a: "node_env \<noteq> Some ''test''" "databaseGlobalConnection icp = Some c"
      "\<forall>t\<in>set (transactionsToBeGeneratedInInterceptor icp). sessionOptions t \<noteq> None"
      "\<forall>h. drv StartSession h = None \<and> drv StartTransaction h = None"
      and run: "generateTransactions node_env icp drv s = (r, s')"
  proof -
    let ?hs = "[next_handle s ..< next_handle s + session_count icp]"
    from generateTransactions_ok [OF a, of s] run obtain ts where
      r: "r = Inr ts"
      and tr: "trace s' = trace s @ concat (map open_events ?hs)"
      and ses: "map session ts = map Some ?hs"
      and nam: "map name ts = (if transactionsToBeGeneratedInInterceptor icp = [] then [''default'']
                               else map name (transactionsToBeGeneratedInInterceptor icp))"
      by auto
    have "opened (new_events s s') = ?hs"
      using new_events_append [OF tr] by (simp add: opened_open_events)
    then show ?thesis
      using r ses nam by simp
  qed
  show ?thesis
    using gen by (simp add: constructor_def)
qed

theorem duplicate_names_not_rejected_witness:
  "transactionsToBeGeneratedInInterceptor (constructor (Some database)) = []
   \<and> map name [bound_instance ''orders'' defaultSessionOptions 0,
                bound_instance ''orders'' readOnlySessionOptions 1] = [''orders'', ''orders'']
   \<and> generateTransactions (Some ''production'') duplicate_config reliable_driver initial_world =
       (Inr [bound_instance ''orders'' defaultSessionOptions 0,
             bound_instance ''orders'' readOnlySessionOptions 1],
        \<lparr>trace = open_events 0 @ open_events 1, logged = [], next_handle = 2\<rparr>)"
proof -
  let ?ts = "[bound_instance ''orders'' defaultSessionOptions 0,
              bound_instance ''orders'' readOnlySessionOptions 1]"
  let ?s = "\<lparr>trace = open_events 0 @ open_events 1, logged = [], next_handle = 2\<rparr>"
  have h1: "Some ''production'' \<noteq> Some ''test''" by simp
  have h2: "databaseGlobalConnection duplicate_config = Some database"
    by (simp add: duplicate_config_def)
  have h3: "\<forall>t\<in>set (transactionsToBeGeneratedInInterceptor duplicate_config). sessionOptions t \<noteq> None"
    by (simp add: cfg_defs)
  have h4: "\<forall>h. reliable_driver StartSession h = None \<and> reliable_driver StartTransaction h = None"
    by (simp add: reliable_driver_def)
  have h5: "generateTransactions (Some ''production'') duplicate_config reliable_driver initial_world
              = (Inr ?ts, ?s)"
    by (simp add: run_defs cfg_defs open_events_def)
  show ?thesis
    using duplicate_names_not_rejected [of "Some database" "Some ''production''" duplicate_config
        database reliable_driver initial_world "Inr ?ts" ?s] h1 h2 h3 h4 h5
    by (simp add: cfg_defs)
qed

text \<open>
  Claim C3 as stated fails: a coordinator whose list holds two templates named
  \<open>"orders"\<close> raises nothing; session generation opens a session for each of them.
\<close>

theorem duplicate_names_counterexample:
  "\<not> distinct (map name (transactionsToBeGeneratedInInterceptor duplicate_config))
   \<and> generateTransactions None duplicate_config reliable_driver initial_world =
       (Inr [bound_instance ''orders'' defaultSessionOptions 0,
             bound_instance ''orders'' readOnlySessionOptions 1],
        \<lparr>trace = [Called StartSession 0, Settled StartSession 0, Called StartTransaction 0,
                  Called StartSession 1, Settled StartSession 1, Called StartTransaction 1],
         logged = [], next_handle = 2\<rparr>)"
  by (simp add: run_defs cfg_defs)

text \<open>
  Claim C4. The translator is a function of the error alone and answers by the first
  rule that applies: an instance of the data-store client's error class becomes an
  internal server error (status 500) with the error's message as message and as
  cause and the error's stack as description; otherwise an error of the remote-call
  client becomes an internal server error with the error's message, the error's own
  cause and its stack; otherwise a type-guard error becomes a bad request (status 400)
  with the validation message as message and description and the error as cause;
  any other value comes back as it is.
\<close>

theorem handleNestException_classification:
  "(instanceof e MongooseError \<longrightarrow>
      handleNestException e =
        InternalServerErrorException (message_of e) (Some (StringValue (message_of e))) (stack_of e)
      \<and> status_of (handleNestException e) = Some 500)
   \<and> (\<not> instanceof e MongooseError \<and> isAxiosError e \<longrightarrow>
      handleNestException e = InternalServerErrorException (message_of e) (cause_of e) (stack_of e)
      \<and> status_of (handleNestException e) = Some 500)
   \<and> (\<not> instanceof e MongooseError \<and> \<not> isAxiosError e \<and> instanceof e TypeGuardError \<longrightarrow>
      handleNestException e = BadRequestException (message_of e) (Some e) (Some (message_of e))
      \<and> status_of (handleNestException e) = Some 400)
   \<and> (\<not> instanceof e MongooseError \<and> \<not> isAxiosError e \<and> \<not> instanceof e TypeGuardError \<longrightarrow>
      handleNestException e = e)"
  by (simp add: handleNestException_def)

theorem handleNestException_classification_witness:
  "handleNestException (ErrorObject MongooseError True ''MongooseError'' ''buffering timed out'' None (Some ''at Model.find''))
     = InternalServerErrorException ''buffering timed out'' (Some (StringValue ''buffering timed out'')) (Some ''at Model.find'')
   \<and> handleNestException (ErrorObject OtherError True ''AxiosError'' ''Network Error'' (Some (StringValue ''ECONNREFUSED'')) None)
     = InternalServerErrorException ''Network Error'' (Some (StringValue ''ECONNREFUSED'')) None
   \<and> handleNestException (ErrorObject TypeGuardError False ''TypeGuardError'' ''expected string'' None None)
     = BadRequestException ''expected string''
         (Some (ErrorObject TypeGuardError False ''TypeGuardError'' ''expected string'' None None))
         (Some ''expected string'')
   \<and> handleNestException (StringValue ''boom'') = StringValue ''boom''"
  using handleNestException_classification
      [of "ErrorObject MongooseError True ''MongooseError'' ''buffering timed out'' None (Some ''at Model.find'')"]
    handleNestException_classification
      [of "ErrorObject OtherError True ''AxiosError'' ''Network Error'' (Some (StringValue ''ECONNREFUSED'')) None"]
    handleNestException_classification
      [of "ErrorObject TypeGuardError False ''TypeGuardError'' ''expected string'' None None"]
    handleNestException_classification [of "StringValue ''boom''"]
  by simp

text \<open>
  Claim C5. When \<open>NODE_ENV\<close> is \<open>"test"\<close>, a request opens no session and makes no
  call to the data store: the world afterwards is the world before with nothing but
  what the subscriber was handed added to the trace. The request carries the empty
  list of sessions and the flag set to true, every lookup on it returns \<open>null\<close>
  whatever the name, and the subscriber receives the handler's values, and the
  translation of the handler's error if its stream ends with one.
\<close>

theorem bypass_mode_no_sessions:
  assumes "node_env = Some ''test''"
    and "intercept node_env icp drv handler req s = (resp, req', s')"
  shows "s' = s\<lparr>trace := trace s @ reply_events resp\<rparr>
       \<and> (\<forall>operation h. Called operation h \<notin> set (new_events s s')
                        \<and> Settled operation h \<notin> set (new_events s s'))
       \<and> transactions req' = Some []
       \<and> isUsingTransaction req' = Some True
       \<and> (\<forall>data. TransactionParam data req' = Inr None)
       \<and> resp = (case handler req' of
                   Stream vs ending \<Rightarrow> Stream vs (map_option handleNestException ending))"
proof -
  let ?req1 = "req\<lparr>transactions := Some [], isUsingTransaction := Some True\<rparr>"
  obtain vs ending where h: "handler ?req1 = Stream vs ending"
    by (cases "handler ?req1")
  let ?resp = "Stream vs (map_option handleNestException ending)"
  have gen: "generateTransactions node_env icp drv s = (Inr [], s)"
    using assms(1) by (simp add: generateTransactions_def)
  have tap: "tap_values drv [] vs s = s\<lparr>trace := trace s @ replicate (length vs) Emitted\<rparr>"
    by (simp add: tap_values_empty pass_values_ok)
  have out: "intercept node_env icp drv handler req s
               = (?resp, ?req1, s\<lparr>trace := trace s @ reply_events ?resp\<rparr>)"
  proof (cases ending)
    case None
    show ?thesis
      by (simp add: intercept_def gen h None tap Let_def)
  next
    case (Some e)
    have abort: "handleTransactionExceptions drv [] e w = (handleNestException e, w)" for w
      by (simp add: handleTransactionExceptions_def endAllSessions_def allSettled_def)
    show ?thesis
      by (simp add: intercept_def gen h Some tap abort raise_error_def Let_def)
  qed
  have "(?resp, ?req1, s\<lparr>trace := trace s @ reply_events ?resp\<rparr>) = (resp, req', s')"
    using trans [OF sym [OF out] assms(2)] .
  then have resp: "resp = ?resp" and req': "req' = ?req1"
    and s0: "s' = s\<lparr>trace := trace s @ reply_events ?resp\<rparr>"
    by blast+
  have s': "s' = s\<lparr>trace := trace s @ reply_events resp\<rparr>"
    using s0 resp by simp
  have "trace s' = trace s @ reply_events resp"
    using s' by simp
  then have "new_events s s' = reply_events resp"
    by (rule new_events_append)
  then have quiet: "\<forall>operation h. Called operation h \<notin> set (new_events s s')
                        \<and> Settled operation h \<notin> set (new_events s s')"
    using reply_events_quiet [of _ _ resp] by simp
  have look: "\<forall>data. TransactionParam data req' = Inr None"
    by (simp add: req' TransactionParam_def)
  have hand: "resp = (case handler req' of
                   Stream vs ending \<Rightarrow> Stream vs (map_option handleNestException ending))"
    by (simp add: resp req' h)
  show ?thesis
    using s' quiet look hand by (simp add: req')
qed

theorem bypass_mode_no_sessions_witness:
  "intercept (Some ''test'') (constructor None) commit_rejecting_driver (accessor_handler (Some ''default''))
       fresh_request initial_world
     = (Stream [None] None, \<lparr>transactions = Some [], isUsingTransaction = Some True\<rparr>,
        \<lparr>trace = [Emitted], logged = [], next_handle = 0\<rparr>)
   \<and> TransactionParam (Some ''analytics'')
        \<lparr>transactions = Some [], isUsingTransaction = Some True\<rparr> = Inr None"
proof -
  have h1: "Some ''test'' = Some ''test''" by simp
  have h2: "intercept (Some ''test'') (constructor None) commit_rejecting_driver
              (accessor_handler (Some ''default'')) fresh_request initial_world
     = (Stream [None] None, \<lparr>transactions = Some [], isUsingTransaction = Some True\<rparr>,
        \<lparr>trace = [Emitted], logged = [], next_handle = 0\<rparr>)"
    by (simp add: run_defs accessor_handler_def TransactionParam_def)
  show ?thesis
    using bypass_mode_no_sessions [OF h1 h2] h2 by simp
qed

text \<open>
  Claim C6. On a request whose flag is not set to true (never set, in particular),
  every lookup throws the internal server error that names the missing interceptor,
  and returns nothing.
\<close>

theorem TransactionParam_misuse:
  "isUsingTransaction req \<noteq> Some True \<Longrightarrow>
     TransactionParam data req = Inl misuse_error \<and> status_of misuse_error = Some 500"
  by (simp add: TransactionParam_def misuse_error_def)

theorem TransactionParam_misuse_witness:
  "isUsingTransaction fresh_request \<noteq> Some True
   \<and> TransactionParam (Some ''analytics'') fresh_request = Inl misuse_error
   \<and> status_of misuse_error = Some 500"
proof -
  have h: "isUsingTransaction fresh_request \<noteq> Some True"
    by (simp add: fresh_request_def)
  show ?thesis
    using TransactionParam_misuse [OF h, of "Some ''analytics''"] h by simp
qed

text \<open>
  Claim C7. On a request whose flag is set to true, a lookup never throws. It returns
  the handle slot of the first instance of the list that carries the requested name
  (\<open>"default"\<close> when no name is given), which is the only such instance when the names
  of the list are distinct, and \<open>null\<close> when no instance carries the name, when the
  list is empty and when there is no list.
\<close>

theorem TransactionParam_lookup:
  assumes "isUsingTransaction req = Some True"
  shows "(\<forall>pre t post. transactions req = Some (pre @ t # post) \<and> name t = requested_name data
              \<and> (\<forall>u\<in>set pre. name u \<noteq> requested_name data)
            \<longrightarrow> TransactionParam data req = Inr (session t))
       \<and> (\<forall>ts t. transactions req = Some ts \<and> distinct (map name ts) \<and> t \<in> set ts
              \<and> name t = requested_name data
            \<longrightarrow> TransactionParam data req = Inr (session t))
       \<and> (\<forall>ts. transactions req = Some ts \<and> (\<forall>u\<in>set ts. name u \<noteq> requested_name data)
            \<longrightarrow> TransactionParam data req = Inr None)
       \<and> (transactions req = Some [] \<or> transactions req = None
            \<longrightarrow> TransactionParam data req = Inr None)
       \<and> (\<exists>r. TransactionParam data req = Inr r)
       \<and> requested_name None = ''default''"
proof -
  have a: "TransactionParam data req = Inr (session t)"
    if "transactions req = Some (pre @ t # post)" "name t = requested_name data"
      "\<forall>u\<in>set pre. name u \<noteq> requested_name data"
    for pre t post
    using assms that find_first [of pre "\<lambda>u. name u = requested_name data" t post]
    by (simp add: TransactionParam_def requested_name_def)
  have b: "TransactionParam data req = Inr (session t)"
    if "transactions req = Some ts" "distinct (map name ts)" "t \<in> set ts"
      "name t = requested_name data"
    for ts t
    using assms that find_distinct_name [of ts t]
    by (simp add: TransactionParam_def requested_name_def)
  have c: "TransactionParam data req = Inr None"
    if "transactions req = Some ts" "\<forall>u\<in>set ts. name u \<noteq> requested_name data" for ts
    using assms that find_absent [of ts "\<lambda>u. name u = requested_name data"]
    by (simp add: TransactionParam_def requested_name_def)
  have d: "TransactionParam data req = Inr None"
    if "transactions req = Some [] \<or> transactions req = None"
    using assms that by (auto simp add: TransactionParam_def)
  have e: "\<exists>r. TransactionParam data req = Inr r"
    using assms by (simp add: TransactionParam_def)
  have f: "requested_name None = ''default''"
    by (simp add: requested_name_def)
  from a b c d e f show ?thesis by blast
qed

theorem TransactionParam_lookup_witness:
  "isUsingTransaction two_session_request = Some True
   \<and> TransactionParam (Some ''analytics'') two_session_request = Inr (Some 1)
   \<and> TransactionParam None two_session_request = Inr (Some 0)
   \<and> TransactionParam (Some ''audit'') two_session_request = Inr None"
proof -
  have h: "isUsingTransaction two_session_request = Some True"
    by (simp add: two_session_request_def)
  show ?thesis
    using TransactionParam_lookup [OF h, of "Some ''analytics''"] h
    by (simp add: TransactionParam_def two_session_request_def bound_instance_def)
qed

text \<open>
  Claim C8. In normal operation without a connection, a request opens no session and
  makes no call to the data store (the world afterwards is the world before with
  nothing but what the subscriber was handed added to the trace), and the handler
  still runs, on the request as it came; the subscriber receives the handler's
  values; when the handler's stream ends with an error, the subscriber receives the
  string \<open>"Failed To Acquire Mongoose lock Error: No connections found"\<close> in its place,
  which carries the cause of the failed acquisition and not what the handler threw;
  when it completes, no error is signalled.
\<close>

theorem no_connection_degraded_path:
  assumes "node_env \<noteq> Some ''test''"
    and "databaseGlobalConnection icp = None"
    and "intercept node_env icp drv handler req s = (resp, req', s')"
  shows "s' = s\<lparr>trace := trace s @ reply_events resp\<rparr>
       \<and> (\<forall>operation h. Called operation h \<notin> set (new_events s s')
                        \<and> Settled operation h \<notin> set (new_events s s'))
       \<and> req' = req
       \<and> resp = (case handler req of
                   Stream vs ending \<Rightarrow>
                     Stream vs (map_option
                       (\<lambda>e. StringValue ''Failed To Acquire Mongoose lock Error: No connections found'')
                       ending))"
proof -
  obtain vs ending where h: "handler req = Stream vs ending"
    by (cases "handler req")
  let ?lock = "StringValue ''Failed To Acquire Mongoose lock Error: No connections found''"
  let ?resp = "Stream vs (map_option (\<lambda>e. ?lock) ending)"
  have gen: "generateTransactions node_env icp drv s = (Inl no_connections_error, s)"
    using assms(1,2) by (rule no_connection_generate)
  have out: "intercept node_env icp drv handler req s
               = (?resp, req, s\<lparr>trace := trace s @ reply_events ?resp\<rparr>)"
  proof (cases ending)
    case None
    show ?thesis
      by (simp add: intercept_def gen h None pass_values_ok)
  next
    case (Some e2)
    show ?thesis
      by (simp add: intercept_def gen h Some pass_values_ok raise_error_def Let_def
          no_connections_error_def)
  qed
  have "(?resp, req, s\<lparr>trace := trace s @ reply_events ?resp\<rparr>) = (resp, req', s')"
    using trans [OF sym [OF out] assms(3)] .
  then have resp: "resp = ?resp" and req': "req' = req"
    and s0: "s' = s\<lparr>trace := trace s @ reply_events ?resp\<rparr>"
    by blast+
  have s': "s' = s\<lparr>trace := trace s @ reply_events resp\<rparr>"
    using s0 resp by simp
  have "trace s' = trace s @ reply_events resp"
    using s' by simp
  then have "new_events s s' = reply_events resp"
    by (rule new_events_append)
  then have quiet: "\<forall>operation h. Called operation h \<notin> set (new_events s s')
                        \<and> Settled operation h \<notin> set (new_events s s')"
    using reply_events_quiet [of _ _ resp] by simp
  have hand: "resp = (case handler req of
                   Stream vs ending \<Rightarrow> Stream vs (map_option (\<lambda>e. ?lock) ending))"
    by (simp add: resp h)
  show ?thesis
    using s' quiet req' hand by simp
qed

theorem no_connection_degraded_path_witness:
  "intercept None (constructor None) reliable_driver failing_handler fresh_request initial_world
     = (Stream [] (Some (StringValue ''Failed To Acquire Mongoose lock Error: No connections found'')),
        fresh_request,
        \<lparr>trace = [Raised (StringValue ''Failed To Acquire Mongoose lock Error: No connections found'')],
         logged = [], next_handle = 0\<rparr>)
   \<and> intercept None (constructor None) reliable_driver succeeding_handler fresh_request initial_world
     = (Stream [()] None, fresh_request, \<lparr>trace = [Emitted], logged = [], next_handle = 0\<rparr>)"
proof -
  have h1: "(None :: string option) \<noteq> Some ''test''" by simp
  have h2: "databaseGlobalConnection (constructor None) = None"
    by (simp add: constructor_def)
  obtain resp req' s' where h3:
    "intercept None (constructor None) reliable_driver failing_handler fresh_request initial_world
       = (resp, req', s')"
    by (cases "intercept None (constructor None) reliable_driver failing_handler fresh_request initial_world")
  obtain resp2 req2 s2 where h4:
    "intercept None (constructor None) reliable_driver succeeding_handler fresh_request initial_world
       = (resp2, req2, s2)"
    by (cases "intercept None (constructor None) reliable_driver succeeding_handler fresh_request initial_world")
  show ?thesis
    using no_connection_degraded_path [OF h1 h2 h3] no_connection_degraded_path [OF h1 h2 h4] h3 h4
    by (simp add: failing_handler_def succeeding_handler_def initial_world_def)
qed

text \<open>
  Claim C9, evaluated where it fails. The coordinator holds the templates \<open>"default"\<close>
  and \<open>"analytics"\<close>, the handler returns, and the client rejects the commit on the
  first session. Both commits are called, both sessions are ended after the commits
  have settled, and the subscriber receives the handler's value; but nothing is logged:
  the handler given to \<open>catch\<close> never runs, since the promise of \<open>allSettled\<close> is
  never rejected. The same holds for the single session of a constructed coordinator.
\<close>

theorem commit_failure_not_logged:
  "intercept None two_session_config commit_rejecting_driver succeeding_handler
       fresh_request initial_world =
     (Stream [()] None,
      \<lparr>transactions = Some [bound_instance ''default'' defaultSessionOptions 0,
                            bound_instance ''analytics'' readOnlySessionOptions 1],
       isUsingTransaction = Some True\<rparr>,
      \<lparr>trace = [Called StartSession 0, Settled StartSession 0, Called StartTransaction 0,
                Called StartSession 1, Settled StartSession 1, Called StartTransaction 1,
                Called CommitTransaction 0, Called CommitTransaction 1, Emitted,
                Settled CommitTransaction 0, Settled CommitTransaction 1,
                Called EndSession 0, Called EndSession 1,
                Settled EndSession 0, Settled EndSession 1],
       logged = [], next_handle = 2\<rparr>)
   \<and> commit_rejecting_driver CommitTransaction 0 = Some write_conflict
   \<and> logged (snd (snd (intercept None (constructor (Some database)) commit_rejecting_driver
        succeeding_handler fresh_request initial_world))) = []"
  by (simp add: run_defs cfg_defs)

text \<open>
  Claim C10. When session generation throws, the request the handler sees is the
  request as it came: neither the list of sessions nor the flag is written. On a
  request that came without the flag, every lookup the handler makes therefore throws
  the misuse error.
\<close>

theorem degraded_path_leaves_request_untouched:
  assumes "generateTransactions node_env icp drv s = (Inl e, s1)"
    and "isUsingTransaction req = None"
    and "intercept node_env icp drv handler req s = (resp, req', s')"
  shows "req' = req
       \<and> isUsingTransaction req' = None
       \<and> (\<forall>data. TransactionParam data req' = Inl misuse_error)
       \<and> resp = (case handler req of
                   Stream vs ending \<Rightarrow>
                     Stream vs (map_option
                       (\<lambda>e2. StringValue (''Failed To Acquire Mongoose lock '' @ toString e))
                       ending))"
  using assms
  by (auto simp add: intercept_def TransactionParam_def Let_def split: stream.splits option.splits)

theorem degraded_path_leaves_request_untouched_witness:
  "generateTransactions None (constructor None) reliable_driver initial_world
     = (Inl no_connections_error, initial_world)
   \<and> intercept None (constructor None) reliable_driver (accessor_handler None)
       fresh_request initial_world
     = (Stream [] (Some (StringValue ''Failed To Acquire Mongoose lock Error: No connections found'')),
        fresh_request,
        \<lparr>trace = [Raised (StringValue ''Failed To Acquire Mongoose lock Error: No connections found'')],
         logged = [], next_handle = 0\<rparr>)
   \<and> TransactionParam None fresh_request = Inl misuse_error"
proof -
  have h1: "generateTransactions None (constructor None) reliable_driver initial_world
     = (Inl no_connections_error, initial_world)"
    by (simp add: generateTransactions_def constructor_def open_session_for_def getConnection_def)
  have h2: "isUsingTransaction fresh_request = None"
    by (simp add: fresh_request_def)
  have h3: "intercept None (constructor None) reliable_driver (accessor_handler None)
       fresh_request initial_world
     = (Stream [] (Some (StringValue ''Failed To Acquire Mongoose lock Error: No connections found'')),
        fresh_request,
        \<lparr>trace = [Raised (StringValue ''Failed To Acquire Mongoose lock Error: No connections found'')],
         logged = [], next_handle = 0\<rparr>)"
    by (simp add: run_defs accessor_handler_def TransactionParam_def no_connections_error_def)
  have acc: "accessor_handler None fresh_request = Stream [] (Some misuse_error)"
    by (simp add: accessor_handler_def TransactionParam_def fresh_request_def)
  show ?thesis
    using degraded_path_leaves_request_untouched [OF h1 h2 h3] h1 h3 acc
    by (simp add: no_connections_error_def)
qed

end
